theory Spec2Isabelle
  imports Main
begin

section \<open>The start-up script \<open>runserver.py\<close>\<close>

text \<open>
  The development embeds the \<open>__main__\<close> block of \<open>runserver.py\<close> (lines 54 to 168) as
  state-passing functions. Everything the script does to the outside world (logging calls,
  configuration writes, calls into the \<open>pogom\<close> package, thread construction) is recorded,
  in program order, in a trace of events. An exception is a value: every step returns
  \<open>Some e\<close> together with the state reached when \<open>e\<close> was raised, or \<open>None\<close> when it
  ran to its end.

  A string is a list of characters, each a code point below 256.
\<close>

subsection \<open>Data\<close>

type_synonym account = string

text \<open>
  A Python number as the script passes it around. No arithmetic is ever done on a
  coordinate, so a float is kept as the decimal text that \<open>float()\<close> was applied to.
\<close>

datatype number = PyFloat string | PyInt int

text \<open>
  Modelled from the spec: the class \<open>PogoWorker\<close> (the Location object) is not part of
  \<open>runserver.py\<close>. The data model gives a Location a latitude, a longitude, an altitude
  and zero or one bound Account.
\<close>

record location =
  latitude :: number
  longitude :: number
  altitude :: number
  bound_account :: "account option"

text \<open>
  Modelled from the spec: the constructor \<open>PogoWorker(lat, lng, alt)\<close>, missing with its
  class, makes a Location at the three coordinates with no account bound.
\<close>

definition PogoWorker :: "number \<Rightarrow> number \<Rightarrow> number \<Rightarrow> location" where
  "PogoWorker la lo al =
     \<lparr>latitude = la, longitude = lo, altitude = al, bound_account = None\<rparr>"

text \<open>
  Modelled from the spec: the method \<open>add_account\<close>, missing with its class, binds the
  account to the Location it is called on.
\<close>

definition add_account :: "account \<Rightarrow> location \<Rightarrow> location" where
  "add_account a l = l\<lparr>bound_account := Some a\<rparr>"

datatype level = Debug | Info | Warning | Error | Critical

datatype error =
    NameError string
  | IndexError
  | SystemExit "int option"

text \<open>
  The exit status of the interpreter: \<open>sys.exit()\<close> raises \<open>SystemExit(None)\<close>, which
  ends the process with status 0; \<open>sys.exit(n)\<close> ends it with status \<open>n\<close> (the script
  only uses 1); any other uncaught exception prints a traceback and ends it with status 1.
\<close>

fun exit_status :: "error \<Rightarrow> int" where
  "exit_status (SystemExit None) = 0"
| "exit_status (SystemExit (Some n)) = n"
| "exit_status (NameError n) = 1"
| "exit_status IndexError = 1"

datatype target = Search_overseer_thread | Fake_search_loop

text \<open>
  The values handed to a thread through \<open>args=(...)\<close>. An \<open>Event\<close> object is passed by
  reference: the argument is its address in the store.
\<close>

datatype argument =
    ArgArgs
  | ArgLocations "location list"
  | ArgEvent nat
  | ArgString string

record thread =
  thread_target :: target
  thread_args :: "argument list"
  daemon :: bool
  thread_name :: string

datatype cfgval = CBool bool | CStr string

datatype event =
    Log level string
  | SetLevel string level
  | ConfigSet string cfgval
  | GetPosByName string
  | NewPogom
  | InitDatabase
  | DropTables
  | OsRemove string
  | CreateTables
  | SetLocations "location list"
  | NewEvent nat
  | EventClear nat
  | InsertMockData location
  | ThreadStart thread
  | EnableCORS
  | InitCacheBusting
  | SetSearchControl nat

text \<open>
  The state of the script: the trace, the list object bound to \<open>locations\<close>, the
  store of \<open>threading.Event\<close> objects (the flag of the object at address \<open>r\<close> is
  the \<open>r\<close>-th entry), and the variables \<open>pause_bit\<close> and \<open>search_thread\<close>, which
  are unbound until assigned.
\<close>

record state =
  trace :: "event list"
  locations :: "location list"
  events :: "bool list"
  pause_bit :: "nat option"
  search_thread :: "thread option"

definition init_state :: state where
  "init_state = \<lparr>trace = [], locations = [], events = [],
                  pause_bit = None, search_thread = None\<rparr>"

type_synonym step = "state \<Rightarrow> error option \<times> state"

definition emit :: "event \<Rightarrow> state \<Rightarrow> state" where
  "emit e s = s\<lparr>trace := trace s @ [e]\<rparr>"

definition ok :: step where
  "ok s = (None, s)"

definition raise :: "error \<Rightarrow> step" where
  "raise e s = (Some e, s)"

definition and_then :: "step \<Rightarrow> step \<Rightarrow> step" where
  "and_then f g s = (case f s of (None, s') \<Rightarrow> g s' | (Some e, s') \<Rightarrow> (Some e, s'))"

subsection \<open>Binding accounts to locations (lines 105 to 112)\<close>

text \<open>
  \<^verbatim>\<open>while len(args.accounts) < len(locations): locations.pop()\<close>
\<close>

function pop_extra :: "nat \<Rightarrow> location list \<Rightarrow> location list" where
  "pop_extra n locs = (if n < length locs then pop_extra n (butlast locs) else locs)"
  by pat_completeness auto
termination
  by (relation "measure (\<lambda>(n, locs). length locs)") auto

text \<open>
  \<^verbatim>\<open>for i, account in enumerate(args.accounts): locations[i].add_account(account)\<close>
  The index \<open>i\<close> counts from 0; \<open>locations[i]\<close> raises \<open>IndexError\<close> when \<open>i\<close> is
  not below the length of the list. The location object at index \<open>i\<close> is changed in place.
\<close>

fun add_accounts :: "nat \<Rightarrow> account list \<Rightarrow> location list \<Rightarrow> error option \<times> location list" where
  "add_accounts i [] locs = (None, locs)"
| "add_accounts i (a # as) locs =
     (if i < length locs
      then add_accounts (Suc i) as (locs[i := add_account a (locs ! i)])
      else (Some IndexError, locs))"

definition bind_accounts :: "account list \<Rightarrow> step" where
  "bind_accounts accounts s =
     (let s1 = (if length accounts < length (locations s)
                then (emit (Log Warning
                        ''Provided fever accounts than locations. Removing extra locations..'') s)
                     \<lparr>locations := pop_extra (length accounts) (locations s)\<rparr>
                else s);
          (e, locs) = add_accounts 0 accounts (locations s1)
      in (e, s1\<lparr>locations := locs\<rparr>))"

text \<open>The bound (Location, Account) pairs that a list of locations holds.\<close>

definition bound_pairs :: "location list \<Rightarrow> (location \<times> account) list" where
  "bound_pairs locs = concat (map (\<lambda>l. case bound_account l of None \<Rightarrow> [] | Some a \<Rightarrow> [(l, a)]) locs)"

subsection \<open>The start-up check (lines 114 to 116)\<close>

definition check_locations :: step where
  "check_locations s =
     (if locations s = []
      then raise (SystemExit None)
             (emit (Log Error ''Could not initialize locations, aborting'') s)
      else ok s)"

subsection \<open>Command line and surroundings\<close>

text \<open>
  The fields of \<open>args\<close> (the result of \<open>get_args()\<close>) that the script reads, and the
  answers of the outside world that it asks for. \<open>location_arg\<close> is \<open>args.location\<close>
  and \<open>locale_arg\<close> is \<open>args.locale\<close>. In \<open>env\<close>, \<open>get_encryption_lib_path\<close> is what
  the call of that name returns, \<open>static_dist_exists\<close> and \<open>db_isfile\<close> are the answers of
  \<open>os.path.exists\<close> (line 69) and \<open>os.path.isfile\<close> (line 134), \<open>get_pos_by_name\<close> is the
  geocoding lookup of \<open>pgoapi.utilities\<close>, taken to return a triple of coordinates, and
  \<open>root_path\<close> is \<open>app.root_path\<close>.
\<close>

record args =
  debug :: bool
  no_server :: bool
  no_pokemon :: bool
  no_pokestops :: bool
  no_gyms :: bool
  location_arg :: string
  accounts :: "account list"
  locale_arg :: string
  china :: bool
  clear_db :: bool
  db_type :: string
  db :: string
  only_server :: bool
  mock :: bool
  cors :: bool
  gmaps_key :: string

record env =
  get_encryption_lib_path :: string
  static_dist_exists :: bool
  db_isfile :: bool
  get_pos_by_name :: "string \<Rightarrow> number \<times> number \<times> number"
  root_path :: string

text \<open>
  The names bound in the module when the \<open>__main__\<close> block runs: the imports and the
  module-level assignments of lines 4 to 44, in the order of the file.
\<close>

definition module_names :: "string list" where
  "module_names =
     [''os'', ''sys'', ''shutil'', ''logging'', ''time'', ''re'',
      ''StrictVersion'', ''Thread'', ''Event'', ''Queue'', ''CORS'', ''init_cache_busting'',
      ''config'', ''Pogom'', ''get_args'', ''insert_mock_data'', ''get_encryption_lib_path'',
      ''search_overseer_thread'', ''fake_search_loop'',
      ''init_database'', ''create_tables'', ''drop_tables'',
      ''pgoapi_version'', ''log'', ''oldpgoapiPath'', ''pgoapi'', ''util'']"

subsection \<open>Lines 56 to 88: checks, log levels, parser switches\<close>

definition set_levels :: "(string \<times> level) list \<Rightarrow> state \<Rightarrow> state" where
  "set_levels ls s = fold (\<lambda>(n, l). emit (SetLevel n l)) ls s"

definition preamble :: "env \<Rightarrow> args \<Rightarrow> step" where
  "preamble ev a s =
     (if get_encryption_lib_path ev = [] then raise (SystemExit (Some 1)) s
      else
        let s1 = emit (SetLevel ''root'' (if debug a then Debug else Info)) s in
        if \<not> no_server a \<and> \<not> static_dist_exists ev
        then raise (SystemExit None)
               (emit (Log Critical
                  (''Missing front-end assets (static/dist) -- please run '' @ [CHR 0x22] @
                   ''npm install && npm run build'' @ [CHR 0x22] @
                   '' before starting the server'')) s1)
        else
          let s2 = set_levels
                     [(''peewee'', Info), (''requests'', Warning), (''pgoapi.pgoapi'', Warning),
                      (''pgoapi.rpc_api'', Info), (''werkzeug'', Error)] s1;
              s3 = emit (ConfigSet ''parse_pokemon'' (CBool (\<not> no_pokemon a))) s2;
              s4 = emit (ConfigSet ''parse_pokestops'' (CBool (\<not> no_pokestops a))) s3;
              s5 = emit (ConfigSet ''parse_gyms'' (CBool (\<not> no_gyms a))) s4
          in ok (if debug a
                 then set_levels
                        [(''requests'', Debug), (''pgoapi'', Debug), (''rpc_api'', Debug)] s5
                 else s5))"

subsection \<open>Lines 90 to 103: the location argument\<close>

text \<open>
  \<^verbatim>\<open>prog = re.compile("^(-?\d+\.\d+),?\s?(-?\d+\.\d+)$")\<close>
  The pattern is a Python 3 \<open>str\<close> pattern, so its classes are the Unicode ones. Among
  the code points below 256, \<open>\d\<close> matches the ten decimal digits and nothing else, and
  \<open>\s\<close> matches 9 to 13, 28 to 32, 0x85 (next line) and 0xA0 (no-break space).
\<close>

definition is_digit :: "char \<Rightarrow> bool" where
  "is_digit c = (c \<in> set ''0123456789'')"

definition is_space :: "char \<Rightarrow> bool" where
  "is_space c =
     (c \<in> set [CHR 0x09, CHR 0x0A, CHR 0x0B, CHR 0x0C, CHR 0x0D,
               CHR 0x1C, CHR 0x1D, CHR 0x1E, CHR 0x1F, CHR 0x20, CHR 0x85, CHR 0xA0])"

text \<open>
  The ways in which \<open>-?\d+\.\d+\<close> matches at the start of a string, as (matched text,
  rest), in the order in which the backtracking matcher tries them. The sign and the
  integer part are forced (a digit or a sign left over cannot match what follows); the
  greedy fraction is tried longest first.
\<close>

definition decimals :: "string \<Rightarrow> (string \<times> string) list" where
  "decimals s =
     (let (sign, s1) = (case s of [] \<Rightarrow> ([], s)
                        | c # cs \<Rightarrow> if c = CHR ''-'' then ([c], cs) else ([], s));
          ip = takeWhile is_digit s1;
          s2 = dropWhile is_digit s1
      in if ip = [] then []
         else case s2 of [] \<Rightarrow> []
              | c # s3 \<Rightarrow>
                  if c \<noteq> CHR ''.'' then []
                  else let fp = takeWhile is_digit s3
                       in map (\<lambda>k. (sign @ ip @ [c] @ take k fp, drop k s3))
                              (rev [1..<Suc (length fp)]))"

text \<open>\<open>,?\<close> and \<open>\s?\<close>: each takes its character when it is there.\<close>

definition skip_if :: "(char \<Rightarrow> bool) \<Rightarrow> string \<Rightarrow> string" where
  "skip_if p s = (case s of [] \<Rightarrow> [] | c # cs \<Rightarrow> if p c then cs else s)"

text \<open>
  \<open>prog.match(location)\<close>: the two groups of the first successful match, or \<open>None\<close>.
  \<open>$\<close> matches at the end of the string and before a newline that ends it.
\<close>

definition prog_match :: "string \<Rightarrow> (string \<times> string) option" where
  "prog_match s =
     (case concat (map (\<lambda>(g1, r1).
              concat (map (\<lambda>(g2, r2). if r2 = [] \<or> r2 = [CHR 0x0A] then [(g1, g2)] else [])
                          (decimals (skip_if is_space (skip_if (\<lambda>c. c = CHR '','') r1)))))
              (decimals s)) of
        [] \<Rightarrow> None
      | m # _ \<Rightarrow> Some m)"

text \<open>\<open>args.location.split("|")\<close>: one piece more than there are bars.\<close>

fun split_bar :: "string \<Rightarrow> string list" where
  "split_bar [] = [[]]"
| "split_bar (c # cs) =
     (if c = CHR ''|'' then [] # split_bar cs
      else case split_bar cs of [] \<Rightarrow> [[c]] | w # ws \<Rightarrow> (c # w) # ws)"

text \<open>
  The body of the loop for one element \<open>location\<close> of the list. In a call
  \<open>PogoWorker(...)\<close> Python evaluates the name \<open>PogoWorker\<close> before the arguments, so the
  \<open>NameError\<close> of an unbound name comes before \<open>util.get_pos_by_name\<close> is called. The
  argument of the lookup is \<open>args.location\<close>, the whole argument, in the source.
  \<open>ns\<close> is the list of names bound in the module.
\<close>

definition locate :: "string list \<Rightarrow> env \<Rightarrow> string \<Rightarrow> string \<Rightarrow> step" where
  "locate ns ev whole location s =
     (case prog_match location of
        Some (g1, g2) \<Rightarrow>
          let s1 = emit (Log Debug ''Using coordinates from CLI directly'') s in
          if ''PogoWorker'' \<in> set ns
          then ok (s1\<lparr>locations :=
                        locations s1 @ [PogoWorker (PyFloat g1) (PyFloat g2) (PyInt 0)]\<rparr>)
          else raise (NameError ''PogoWorker'') s1
      | None \<Rightarrow>
          let s1 = emit (Log Debug ''Looking up coordinates in API'') s in
          if ''PogoWorker'' \<in> set ns
          then let s2 = emit (GetPosByName whole) s1;
                   (la, lo, al) = get_pos_by_name ev whole
               in ok (s2\<lparr>locations := locations s2 @ [PogoWorker la lo al]\<rparr>)
          else raise (NameError ''PogoWorker'') s1)"

fun locate_all :: "string list \<Rightarrow> env \<Rightarrow> string \<Rightarrow> string list \<Rightarrow> step" where
  "locate_all ns ev whole [] s = ok s"
| "locate_all ns ev whole (location # rest) s =
     and_then (locate ns ev whole location) (locate_all ns ev whole rest) s"

definition parse_locations :: "string list \<Rightarrow> env \<Rightarrow> args \<Rightarrow> step" where
  "parse_locations ns ev a s =
     locate_all ns ev (location_arg a) (split_bar (location_arg a)) (s\<lparr>locations := []\<rparr>)"

text \<open>
  The names bound when the loop of lines 94 to 103 runs its body: those of the module
  and the variables assigned in the \<open>__main__\<close> block so far. (\<open>PogoWorker\<close> is no
  built-in name of Python either.)
\<close>

definition script_names :: "string list" where
  "script_names =
     module_names @
     [''encryption_lib_path'', ''args'', ''prog'', ''parsed_locations'', ''locations'',
      ''location'', ''res'', ''position'']"

subsection \<open>Lines 118 to 138: application and database\<close>

definition init_app :: "env \<Rightarrow> args \<Rightarrow> step" where
  "init_app ev a s =
     (let s1 = (if no_pokemon a then emit (Log Info ''Parsing of Pokemon disabled'') s else s);
          s2 = (if no_pokestops a then emit (Log Info ''Parsing of Pokestops disabled'') s1 else s1);
          s3 = (if no_gyms a then emit (Log Info ''Parsing of Gyms disabled'') s2 else s2);
          s4 = emit (ConfigSet ''LOCALE'' (CStr (locale_arg a))) s3;
          s5 = emit (ConfigSet ''CHINA'' (CBool (china a))) s4;
          s6 = emit InitDatabase (emit NewPogom s5);
          s7 = (if clear_db a
                then let t = emit (Log Info ''Clearing database'') s6
                     in if db_type a = ''mysql'' then emit DropTables t
                        else if db_isfile ev then emit (OsRemove (db a)) t
                        else t
                else s6);
          s8 = emit CreateTables s7
      in ok (emit (SetLocations (locations s8)) s8))"

subsection \<open>Lines 140 to 157: the pause signal and the search thread\<close>

text \<open>
  \<open>threading.Event\<close>: a flag with the operations \<open>set\<close>, \<open>clear\<close> and \<open>is_set\<close>, acting
  on the object at an address of the store. \<open>Event()\<close> makes a new object, its flag false.
\<close>

definition event_set :: "nat \<Rightarrow> bool list \<Rightarrow> bool list" where
  "event_set r st = st[r := True]"

definition event_clear :: "nat \<Rightarrow> bool list \<Rightarrow> bool list" where
  "event_clear r st = st[r := False]"

definition event_is_set :: "nat \<Rightarrow> bool list \<Rightarrow> bool" where
  "event_is_set r st = (r < length st \<and> st ! r)"

text \<open>
  \<open>Thread(target=f, args=xs)\<close>: a thread of the main thread is no daemon until it is
  made one; its default name is overwritten before the thread starts and is left empty here.
\<close>

definition Thread :: "target \<Rightarrow> argument list \<Rightarrow> thread" where
  "Thread f xs = \<lparr>thread_target = f, thread_args = xs, daemon = False, thread_name = []\<rparr>"

text \<open>Lines 155 to 157: \<open>daemon = True\<close>, \<open>name = 'search_thread'\<close>, \<open>start()\<close>.\<close>

definition start_thread :: "thread \<Rightarrow> step" where
  "start_thread t s =
     (let t' = t\<lparr>daemon := True, thread_name := ''search_thread''\<rparr>
      in ok ((emit (ThreadStart t') s)\<lparr>search_thread := Some t'\<rparr>))"

definition start_search :: "args \<Rightarrow> string \<Rightarrow> step" where
  "start_search a encryption_lib_path s =
     (let r = length (events s);
          s1 = (emit (NewEvent r) s)\<lparr>events := events s @ [False], pause_bit := Some r\<rparr>;
          s2 = (emit (EventClear r) s1)\<lparr>events := event_clear r (events s1)\<rparr>
      in if only_server a then ok s2
         else if \<not> mock a
         then start_thread
                (Thread Search_overseer_thread
                   [ArgArgs, ArgLocations (locations s2), ArgEvent r,
                    ArgString encryption_lib_path])
                (emit (Log Debug ''Starting a real search thread'') s2)
         else let s3 = emit (Log Debug ''Starting a fake search thread'') s2
              in case locations s3 of
                   [] \<Rightarrow> raise IndexError s3
                 | l # _ \<Rightarrow>
                     start_thread (Thread Fake_search_loop []) (emit (InsertMockData l) s3))"

subsection \<open>Lines 159 to 168: the control surface\<close>

definition finish :: "env \<Rightarrow> args \<Rightarrow> step" where
  "finish ev a s =
     (let s1 = (if cors a then emit EnableCORS s else s);
          s2 = emit InitCacheBusting s1
      in case pause_bit s2 of
           None \<Rightarrow> raise (NameError ''pause_bit'') s2
         | Some r \<Rightarrow>
             ok (emit (ConfigSet ''GMAPS_KEY'' (CStr (gmaps_key a)))
                  (emit (ConfigSet ''ROOT_PATH'' (CStr (root_path ev)))
                    (emit (SetSearchControl r) s2))))"

definition launch :: "env \<Rightarrow> args \<Rightarrow> step" where
  "launch ev a = and_then (start_search a (get_encryption_lib_path ev)) (finish ev a)"

subsection \<open>The whole block\<close>

text \<open>
  Lines 56 to 168 in order. The last lines of the script (170 to 175) hand control to the
  web server or wait for the search thread; they are not part of the model.
\<close>

definition main :: "string list \<Rightarrow> env \<Rightarrow> args \<Rightarrow> error option \<times> state" where
  "main ns ev a =
     and_then (preamble ev a)
       (and_then (parse_locations ns ev a)
         (and_then (bind_accounts (accounts a))
           (and_then check_locations
             (and_then (init_app ev a) (launch ev a))))) init_state"

subsection \<open>Reading a trace\<close>

text \<open>The events that a step added to the trace.\<close>

definition added :: "state \<Rightarrow> state \<Rightarrow> event list" where
  "added s s' = drop (length (trace s)) (trace s')"

fun lookups :: "event list \<Rightarrow> string list" where
  "lookups [] = []"
| "lookups (GetPosByName q # es) = q # lookups es"
| "lookups (e # es) = lookups es"

fun created_events :: "event list \<Rightarrow> nat list" where
  "created_events [] = []"
| "created_events (NewEvent r # es) = r # created_events es"
| "created_events (e # es) = created_events es"

fun control_signals :: "event list \<Rightarrow> nat list" where
  "control_signals [] = []"
| "control_signals (SetSearchControl r # es) = r # control_signals es"
| "control_signals (e # es) = control_signals es"

fun started_threads :: "event list \<Rightarrow> thread list" where
  "started_threads [] = []"
| "started_threads (ThreadStart t # es) = t # started_threads es"
| "started_threads (e # es) = started_threads es"

fun mock_inserts :: "event list \<Rightarrow> location list" where
  "mock_inserts [] = []"
| "mock_inserts (InsertMockData l # es) = l # mock_inserts es"
| "mock_inserts (e # es) = mock_inserts es"

text \<open>The addresses of the \<open>Event\<close> objects among the arguments of a thread.\<close>

fun signals_of :: "argument list \<Rightarrow> nat list" where
  "signals_of [] = []"
| "signals_of (ArgEvent r # xs) = r # signals_of xs"
| "signals_of (x # xs) = signals_of xs"

subsection \<open>Sample inputs\<close>

text \<open>
  Two locations, a command line and surroundings for the concrete runs below. The sample
  lookup knows \<open>Berlin\<close> and \<open>Rome\<close> and answers with zeros for any other name.
\<close>

abbreviation berlin :: location where
  "berlin \<equiv> PogoWorker (PyFloat ''52.52'') (PyFloat ''13.40'') (PyInt 0)"

abbreviation paris :: location where
  "paris \<equiv> PogoWorker (PyFloat ''48.85'') (PyFloat ''2.35'') (PyInt 0)"

abbreviation sample_args :: args where
  "sample_args \<equiv>
     \<lparr>debug = False, no_server = False, no_pokemon = False, no_pokestops = False,
      no_gyms = False, location_arg = ''Berlin|48.85,2.35|Rome'', accounts = [''a0''],
      locale_arg = ''en'', china = False, clear_db = False, db_type = ''sqlite'',
      db = ''pogom.db'', only_server = False, mock = False, cors = False,
      gmaps_key = ''key''\<rparr>"

abbreviation sample_env :: env where
  "sample_env \<equiv>
     \<lparr>get_encryption_lib_path = ''libencrypt.so'', static_dist_exists = True,
      db_isfile = False,
      get_pos_by_name =
        (\<lambda>name. if name = ''Berlin'' then (PyFloat ''52.52'', PyFloat ''13.40'', PyFloat ''34.0'')
                else if name = ''Rome'' then (PyFloat ''41.90'', PyFloat ''12.50'', PyFloat ''21.0'')
                else (PyFloat ''0.0'', PyFloat ''0.0'', PyFloat ''0.0'')),
      root_path = ''/srv/map''\<rparr>"

section \<open>Properties of the binding step\<close>

declare pop_extra.simps [simp del]

lemma pop_extra_take: "pop_extra n locs = take n locs"
proof (induction n locs rule: pop_extra.induct)
  case (1 n locs)
  show ?case
  proof (cases "n < length locs")
    case True
    then have "pop_extra n locs = pop_extra n (butlast locs)"
      by (subst pop_extra.simps) simp
    also have "\<dots> = take n (butlast locs)"
      using 1 True by simp
    also have "\<dots> = take n locs"
      using True by (simp add: take_butlast)
    finally show ?thesis .
  next
    case False
    then show ?thesis
      by (subst pop_extra.simps) simp
  qed
qed

lemma add_accounts_fits:
  "i + length accs \<le> length locs \<Longrightarrow>
   add_accounts i accs locs =
     (None, take i locs @ map (\<lambda>(a, l). add_account a l) (zip accs (drop i locs))
            @ drop (i + length accs) locs)"
proof (induction accs arbitrary: i locs)
  case Nil
  then show ?case by simp
next
  case (Cons a accs)
  then have i: "i < length locs" by simp
  have d: "drop i locs = locs ! i # drop (Suc i) locs"
    using i by (simp add: Cons_nth_drop_Suc)
  have "add_accounts i (a # accs) locs =
          add_accounts (Suc i) accs (locs[i := add_account a (locs ! i)])"
    using i by simp
  also have "\<dots> = (None, take (Suc i) (locs[i := add_account a (locs ! i)])
                      @ map (\<lambda>(a, l). add_account a l)
                          (zip accs (drop (Suc i) (locs[i := add_account a (locs ! i)])))
                      @ drop (Suc i + length accs) (locs[i := add_account a (locs ! i)]))"
    using Cons.prems by (intro Cons.IH) simp
  also have "\<dots> = (None, take i locs @ map (\<lambda>(a, l). add_account a l)
                        (zip (a # accs) (drop i locs))
                      @ drop (i + length (a # accs)) locs)"
    using i by (simp add: d take_Suc_conv_app_nth)
  finally show ?case .
qed

lemma add_accounts_overrun:
  "i \<le> length locs \<Longrightarrow> length locs < i + length accs \<Longrightarrow>
   fst (add_accounts i accs locs) = Some IndexError"
  by (induction accs arbitrary: i locs) auto

lemma zip_take_left: "zip xs (take (length xs) ys) = zip xs ys"
proof (induction xs arbitrary: ys)
  case Nil
  then show ?case by simp
next
  case (Cons x xs)
  then show ?case by (cases ys) simp_all
qed

lemma bind_accounts_fits:
  assumes "length accs \<le> length (locations s)"
  shows "bind_accounts accs s =
     (None,
      s\<lparr>trace := trace s @
           (if length accs < length (locations s)
            then [Log Warning
                   ''Provided fever accounts than locations. Removing extra locations..'']
            else []),
        locations := map (\<lambda>(a, l). add_account a l) (zip accs (locations s))\<rparr>)"
proof (cases "length accs < length (locations s)")
  case True
  then show ?thesis
    by (simp add: bind_accounts_def emit_def pop_extra_take add_accounts_fits min_def zip_take_left)
next
  case False
  with assms have "length accs = length (locations s)" by simp
  then show ?thesis
    by (simp add: bind_accounts_def add_accounts_fits)
qed

lemma bind_accounts_overrun:
  assumes "length (locations s) < length accs"
  shows "fst (bind_accounts accs s) = Some IndexError"
  using assms add_accounts_overrun [of 0 "locations s" accs]
  by (auto simp add: bind_accounts_def split: prod.splits)


lemma no_accounts_refused:
  assumes "locations s \<noteq> []"
  shows "and_then (bind_accounts []) check_locations s =
     (Some (SystemExit None),
      s\<lparr>trace := trace s @
           [Log Warning ''Provided fever accounts than locations. Removing extra locations..'',
            Log Error ''Could not initialize locations, aborting''],
        locations := []\<rparr>)"
  using assms
  by (simp add: and_then_def bind_accounts_fits check_locations_def raise_def emit_def)

text \<open>
  C1. The claim: for all location lists and account lists the binding step produces
  \<open>min (len L) (len A)\<close> pairs in input order and completes without error also when
  there are more accounts than locations. The loop of line 111 runs over every account
  and indexes \<open>locations\<close> with the account's position: with one location and two
  accounts the first account is bound and the second index raises \<open>IndexError\<close>, in
  the step alone and in the whole block run on one coordinate pair and two accounts
  (with the class \<open>PogoWorker\<close> bound).
\<close>

theorem binding_more_accounts_raises:
  "bind_accounts [''a0'', ''a1''] (init_state\<lparr>locations := [berlin]\<rparr>) =
     (Some IndexError,
      init_state\<lparr>locations :=
        [\<lparr>latitude = PyFloat ''52.52'', longitude = PyFloat ''13.40'', altitude = PyInt 0,
          bound_account = Some ''a0''\<rparr>]\<rparr>)
   \<and> fst (main (''PogoWorker'' # script_names) sample_env
          (sample_args\<lparr>location_arg := ''52.52,13.40'', accounts := [''a0'', ''a1'']\<rparr>)) =
     Some IndexError"
  by (simp add: main_def and_then_def preamble_def set_levels_def emit_def ok_def raise_def
        parse_locations_def locate_def prog_match_def decimals_def skip_if_def is_digit_def
        is_space_def init_state_def bind_accounts_def PogoWorker_def add_account_def)

text \<open>
  C3. The claim: with zero bound pairs after binding, start-up is refused with a fatal
  configuration error, no worker starts and the exit code is not zero. With one location
  and no account the list is emptied, the error is logged and \<open>sys.exit()\<close> is called
  without an argument: nothing is started, and the exit status is 0. The same happens in
  the whole block run without accounts (with the class \<open>PogoWorker\<close> bound).
\<close>

theorem no_accounts_exit_status_zero:
  "and_then (bind_accounts []) check_locations (init_state\<lparr>locations := [berlin]\<rparr>) =
     (Some (SystemExit None),
      init_state\<lparr>trace :=
        [Log Warning ''Provided fever accounts than locations. Removing extra locations..'',
         Log Error ''Could not initialize locations, aborting'']\<rparr>)
   \<and> fst (main (''PogoWorker'' # script_names) sample_env (sample_args\<lparr>accounts := []\<rparr>)) =
       Some (SystemExit None)
   \<and> started_threads (trace (snd (main (''PogoWorker'' # script_names) sample_env
        (sample_args\<lparr>accounts := []\<rparr>)))) = []
   \<and> exit_status (SystemExit None) = 0"
  by (simp add: main_def and_then_def preamble_def set_levels_def emit_def ok_def raise_def
        parse_locations_def locate_def prog_match_def decimals_def skip_if_def is_digit_def
        is_space_def init_state_def bind_accounts_def pop_extra_take check_locations_def
        PogoWorker_def)

text \<open>
  C4. Whenever fewer accounts than locations are supplied, the binding step completes,
  keeps exactly the first \<open>len A\<close> locations in their input order (each bound to the
  account at its position), drops the trailing ones, and logs the warning.
\<close>

theorem fewer_accounts_drop_trailing_locations:
  assumes "length accs < length (locations s)"
  shows "fst (bind_accounts accs s) = None
       \<and> locations (snd (bind_accounts accs s)) =
           map (\<lambda>(a, l). add_account a l) (zip accs (take (length accs) (locations s)))
       \<and> length (locations (snd (bind_accounts accs s))) = length accs
       \<and> trace (snd (bind_accounts accs s)) =
           trace s @ [Log Warning
             ''Provided fever accounts than locations. Removing extra locations..'']"
  using assms by (simp add: bind_accounts_fits zip_take_left)

theorem fewer_accounts_drop_trailing_locations_witness:
  "length [''a0''] < length (locations (init_state\<lparr>locations := [berlin, paris]\<rparr>))
   \<and> fst (bind_accounts [''a0''] (init_state\<lparr>locations := [berlin, paris]\<rparr>)) = None
   \<and> locations (snd (bind_accounts [''a0''] (init_state\<lparr>locations := [berlin, paris]\<rparr>))) =
       [add_account ''a0'' berlin]
   \<and> trace (snd (bind_accounts [''a0''] (init_state\<lparr>locations := [berlin, paris]\<rparr>))) =
       [Log Warning ''Provided fever accounts than locations. Removing extra locations..'']"
  using fewer_accounts_drop_trailing_locations
          [of "[''a0'']" "init_state\<lparr>locations := [berlin, paris]\<rparr>"]
  by (simp add: init_state_def)

text \<open>
  C5. The claim: binding is a pure function that leaves its input sequences and their
  elements unchanged and returns the pairing as a value. In the source the step returns
  nothing: it shortens the list \<open>locations\<close> in place and stores the account in the
  location object. With two locations and one account the list that held both is left
  holding one changed element.
\<close>

theorem binding_changes_its_input:
  "locations (snd (bind_accounts [''a0''] (init_state\<lparr>locations := [berlin, paris]\<rparr>))) =
     [berlin\<lparr>bound_account := Some ''a0''\<rparr>]
   \<and> locations (snd (bind_accounts [''a0''] (init_state\<lparr>locations := [berlin, paris]\<rparr>))) \<noteq>
     locations (init_state\<lparr>locations := [berlin, paris]\<rparr>)"
  by (simp add: bind_accounts_fits init_state_def add_account_def)

text \<open>
  C5, amended. With no more accounts than locations, binding works by side effect on
  the list \<open>locations\<close> and on the log, and on nothing else: the list is cut to its
  first \<open>len A\<close> entries, entry \<open>i\<close> has account \<open>i\<close> stored in it, the warning is
  logged when entries were cut, and the store, \<open>pause_bit\<close> and \<open>search_thread\<close> are as
  before. The account list is only read.
\<close>

theorem binding_mutates_locations_only:
  assumes "length accs \<le> length (locations s)"
  shows "fst (bind_accounts accs s) = None
       \<and> locations (snd (bind_accounts accs s)) =
           map (\<lambda>(a, l). add_account a l) (zip accs (locations s))
       \<and> trace (snd (bind_accounts accs s)) =
           trace s @ (if length accs < length (locations s)
                      then [Log Warning
                        ''Provided fever accounts than locations. Removing extra locations..'']
                      else [])
       \<and> events (snd (bind_accounts accs s)) = events s
       \<and> pause_bit (snd (bind_accounts accs s)) = pause_bit s
       \<and> search_thread (snd (bind_accounts accs s)) = search_thread s"
  using assms by (simp add: bind_accounts_fits)

theorem binding_mutates_locations_only_witness:
  "length [''a0'', ''a1''] \<le> length (locations (init_state\<lparr>locations := [berlin, paris]\<rparr>))
   \<and> fst (bind_accounts [''a0'', ''a1''] (init_state\<lparr>locations := [berlin, paris]\<rparr>)) = None
   \<and> locations (snd (bind_accounts [''a0'', ''a1''] (init_state\<lparr>locations := [berlin, paris]\<rparr>))) =
       [add_account ''a0'' berlin, add_account ''a1'' paris]
   \<and> trace (snd (bind_accounts [''a0'', ''a1''] (init_state\<lparr>locations := [berlin, paris]\<rparr>))) = []"
  using binding_mutates_locations_only
          [of "[''a0'', ''a1'']" "init_state\<lparr>locations := [berlin, paris]\<rparr>"]
  by (simp add: init_state_def)

section \<open>Properties of the location argument\<close>

subsection \<open>The trace readers distribute over append\<close>

lemma lookups_append: "lookups (xs @ ys) = lookups xs @ lookups ys"
  by (induction xs rule: lookups.induct) simp_all

lemma created_events_append: "created_events (xs @ ys) = created_events xs @ created_events ys"
  by (induction xs rule: created_events.induct) simp_all

lemma control_signals_append: "control_signals (xs @ ys) = control_signals xs @ control_signals ys"
  by (induction xs rule: control_signals.induct) simp_all

lemma started_threads_append: "started_threads (xs @ ys) = started_threads xs @ started_threads ys"
  by (induction xs rule: started_threads.induct) simp_all

lemma mock_inserts_append: "mock_inserts (xs @ ys) = mock_inserts xs @ mock_inserts ys"
  by (induction xs rule: mock_inserts.induct) simp_all

lemma added_append: "added s (s\<lparr>trace := trace s @ xs\<rparr>) = xs"
  by (simp add: added_def)

lemmas readers_append = created_events_append control_signals_append started_threads_append
  mock_inserts_append lookups_append

subsection \<open>The loop over the pieces of the argument\<close>

lemma split_bar_nonempty: "split_bar s \<noteq> []"
  by (induction s) (auto split: list.splits)

lemma PogoWorker_unbound: "''PogoWorker'' \<notin> set script_names"
  by (simp add: script_names_def module_names_def)

lemma locate_unbound:
  assumes "''PogoWorker'' \<notin> set ns"
  shows "locate ns ev whole location s =
     (Some (NameError ''PogoWorker''),
      emit (Log Debug (case prog_match location of
                         None \<Rightarrow> ''Looking up coordinates in API''
                       | Some m \<Rightarrow> ''Using coordinates from CLI directly'')) s)"
  using assms by (simp add: locate_def raise_def split: option.splits)

lemma locate_bound:
  assumes "''PogoWorker'' \<in> set ns"
  shows "locate ns ev whole location s =
     (None,
      s\<lparr>trace := trace s @
           (case prog_match location of
              None \<Rightarrow> [Log Debug ''Looking up coordinates in API'', GetPosByName whole]
            | Some m \<Rightarrow> [Log Debug ''Using coordinates from CLI directly'']),
        locations := locations s @
           [case prog_match location of
              None \<Rightarrow> (case get_pos_by_name ev whole of (la, lo, al) \<Rightarrow> PogoWorker la lo al)
            | Some (g1, g2) \<Rightarrow> PogoWorker (PyFloat g1) (PyFloat g2) (PyInt 0)]\<rparr>)"
  using assms by (simp add: locate_def ok_def emit_def split: option.splits prod.splits)

lemma locate_all_bound:
  assumes "''PogoWorker'' \<in> set ns"
  shows "locate_all ns ev whole ls s =
     (None,
      s\<lparr>trace := trace s @
           concat (map (\<lambda>location. case prog_match location of
              None \<Rightarrow> [Log Debug ''Looking up coordinates in API'', GetPosByName whole]
            | Some m \<Rightarrow> [Log Debug ''Using coordinates from CLI directly'']) ls),
        locations := locations s @
           map (\<lambda>location. case prog_match location of
              None \<Rightarrow> (case get_pos_by_name ev whole of (la, lo, al) \<Rightarrow> PogoWorker la lo al)
            | Some (g1, g2) \<Rightarrow> PogoWorker (PyFloat g1) (PyFloat g2) (PyInt 0)) ls\<rparr>)"
proof (induction ls arbitrary: s)
  case Nil
  then show ?case by (simp add: ok_def)
next
  case (Cons location ls)
  show ?case
    by (simp add: and_then_def locate_bound [OF assms] Cons.IH)
qed

lemma lookups_located:
  "lookups (concat (map (\<lambda>location. case prog_match location of
              None \<Rightarrow> [Log Debug ''Looking up coordinates in API'', GetPosByName whole]
            | Some m \<Rightarrow> [Log Debug ''Using coordinates from CLI directly'']) ls)) =
   map (\<lambda>location. whole) (filter (\<lambda>location. prog_match location = None) ls)"
  by (induction ls) (auto simp: lookups_append split: option.splits)

lemma parse_locations_unbound:
  assumes "''PogoWorker'' \<notin> set ns"
  shows "parse_locations ns ev a s =
     (Some (NameError ''PogoWorker''),
      s\<lparr>trace := trace s @
           [Log Debug (case prog_match (hd (split_bar (location_arg a))) of
                         None \<Rightarrow> ''Looking up coordinates in API''
                       | Some m \<Rightarrow> ''Using coordinates from CLI directly'')],
        locations := []\<rparr>)"
proof (cases "split_bar (location_arg a)")
  case Nil
  then show ?thesis by (simp add: split_bar_nonempty)
next
  case (Cons location rest)
  then show ?thesis
    by (simp add: parse_locations_def and_then_def locate_unbound [OF assms] emit_def)
qed

lemma set_levels_trace: "set_levels ls s = s\<lparr>trace := trace s @ map (\<lambda>(n, l). SetLevel n l) ls\<rparr>"
  unfolding set_levels_def
  by (induction ls arbitrary: s) (auto simp: emit_def)

lemma preamble_passes:
  assumes "get_encryption_lib_path ev \<noteq> []" "no_server a \<or> static_dist_exists ev"
  shows "preamble ev a s =
     (None,
      s\<lparr>trace := trace s @
           [SetLevel ''root'' (if debug a then Debug else Info),
            SetLevel ''peewee'' Info, SetLevel ''requests'' Warning,
            SetLevel ''pgoapi.pgoapi'' Warning, SetLevel ''pgoapi.rpc_api'' Info,
            SetLevel ''werkzeug'' Error,
            ConfigSet ''parse_pokemon'' (CBool (\<not> no_pokemon a)),
            ConfigSet ''parse_pokestops'' (CBool (\<not> no_pokestops a)),
            ConfigSet ''parse_gyms'' (CBool (\<not> no_gyms a))] @
           (if debug a
            then [SetLevel ''requests'' Debug, SetLevel ''pgoapi'' Debug,
                  SetLevel ''rpc_api'' Debug]
            else [])\<rparr>)"
  using assms by (auto simp add: preamble_def Let_def set_levels_trace emit_def ok_def)

lemma and_then_ok: "f s = (None, s') \<Longrightarrow> and_then f g s = g s'"
  by (simp add: and_then_def)

lemma and_then_raised: "f s = (Some e, s') \<Longrightarrow> and_then f g s = (Some e, s')"
  by (simp add: and_then_def)

text \<open>
  C2. The name \<open>PogoWorker\<close> is bound by no import and no assignment of the script, and
  both branches of the loop body call it: for every element of the location list the body
  raises \<open>NameError\<close>. The argument always splits into at least one piece, so whenever
  the two checks before the loop pass (the encryption library is found; the front-end
  assets exist or no server is asked for), the block ends in that uncaught \<open>NameError\<close> in
  the first round of the loop: the trace holds the settings of lines 62 to 88 and the one
  debug line of the loop body, no location exists, nothing is bound, and neither the pause
  signal nor a thread has been created.
\<close>

theorem location_construction_raises_NameError:
  assumes "get_encryption_lib_path ev \<noteq> []" "no_server a \<or> static_dist_exists ev"
  shows "''PogoWorker'' \<notin> set script_names
       \<and> (\<forall>location s. fst (locate script_names ev (location_arg a) location s) =
             Some (NameError ''PogoWorker''))
       \<and> main script_names ev a =
           (Some (NameError ''PogoWorker''),
            init_state\<lparr>trace :=
              [SetLevel ''root'' (if debug a then Debug else Info),
               SetLevel ''peewee'' Info, SetLevel ''requests'' Warning,
               SetLevel ''pgoapi.pgoapi'' Warning, SetLevel ''pgoapi.rpc_api'' Info,
               SetLevel ''werkzeug'' Error,
               ConfigSet ''parse_pokemon'' (CBool (\<not> no_pokemon a)),
               ConfigSet ''parse_pokestops'' (CBool (\<not> no_pokestops a)),
               ConfigSet ''parse_gyms'' (CBool (\<not> no_gyms a))] @
              (if debug a
               then [SetLevel ''requests'' Debug, SetLevel ''pgoapi'' Debug,
                     SetLevel ''rpc_api'' Debug]
               else []) @
              [Log Debug (case prog_match (hd (split_bar (location_arg a))) of
                            None \<Rightarrow> ''Looking up coordinates in API''
                          | Some m \<Rightarrow> ''Using coordinates from CLI directly'')]\<rparr>)
       \<and> bound_pairs (locations (snd (main script_names ev a))) = []
       \<and> created_events (trace (snd (main script_names ev a))) = []
       \<and> started_threads (trace (snd (main script_names ev a))) = []
       \<and> pause_bit (snd (main script_names ev a)) = None
       \<and> search_thread (snd (main script_names ev a)) = None"
proof -
  have m: "main script_names ev a =
           (Some (NameError ''PogoWorker''),
            init_state\<lparr>trace :=
              [SetLevel ''root'' (if debug a then Debug else Info),
               SetLevel ''peewee'' Info, SetLevel ''requests'' Warning,
               SetLevel ''pgoapi.pgoapi'' Warning, SetLevel ''pgoapi.rpc_api'' Info,
               SetLevel ''werkzeug'' Error,
               ConfigSet ''parse_pokemon'' (CBool (\<not> no_pokemon a)),
               ConfigSet ''parse_pokestops'' (CBool (\<not> no_pokestops a)),
               ConfigSet ''parse_gyms'' (CBool (\<not> no_gyms a))] @
              (if debug a
               then [SetLevel ''requests'' Debug, SetLevel ''pgoapi'' Debug,
                     SetLevel ''rpc_api'' Debug]
               else []) @
              [Log Debug (case prog_match (hd (split_bar (location_arg a))) of
                            None \<Rightarrow> ''Looking up coordinates in API''
                          | Some m \<Rightarrow> ''Using coordinates from CLI directly'')]\<rparr>)"
    unfolding main_def
    by (simp add: and_then_ok [OF preamble_passes [OF assms]]
          and_then_raised [OF parse_locations_unbound [OF PogoWorker_unbound]] init_state_def)
  have l: "\<forall>location s. fst (locate script_names ev (location_arg a) location s) =
             Some (NameError ''PogoWorker'')"
    by (simp add: locate_unbound [OF PogoWorker_unbound])
  show ?thesis
    unfolding m using l
    by (simp add: PogoWorker_unbound init_state_def bound_pairs_def readers_append)
qed

theorem location_construction_raises_NameError_witness:
  "get_encryption_lib_path sample_env = ''libencrypt.so''
   \<and> static_dist_exists sample_env
   \<and> main script_names sample_env sample_args =
       (Some (NameError ''PogoWorker''),
        init_state\<lparr>trace :=
          [SetLevel ''root'' Info,
           SetLevel ''peewee'' Info, SetLevel ''requests'' Warning,
           SetLevel ''pgoapi.pgoapi'' Warning, SetLevel ''pgoapi.rpc_api'' Info,
           SetLevel ''werkzeug'' Error,
           ConfigSet ''parse_pokemon'' (CBool True),
           ConfigSet ''parse_pokestops'' (CBool True),
           ConfigSet ''parse_gyms'' (CBool True),
           Log Debug ''Looking up coordinates in API'']\<rparr>)"
  using location_construction_raises_NameError [of sample_env sample_args]
  by (simp add: prog_match_def decimals_def skip_if_def is_digit_def is_space_def)

text \<open>
  C9. For an element that does not match the coordinate pattern the lookup is called on
  \<open>args.location\<close>, the whole argument, never on the element. Whatever names are bound,
  every lookup of the loop has the whole argument as its argument. When the class
  \<open>PogoWorker\<close> is bound (it is not part of the script, so the names are a parameter
  here) the loop completes, makes one such lookup for each element that does not match,
  in order, and gives all of these elements the same position, the one looked up for the
  whole argument.
\<close>

theorem lookup_uses_whole_argument:
  "(\<forall>q \<in> set (lookups (added s (snd (parse_locations ns ev a s)))). q = location_arg a)
   \<and> (''PogoWorker'' \<in> set ns \<longrightarrow>
        fst (parse_locations ns ev a s) = None
      \<and> locations (snd (parse_locations ns ev a s)) =
          map (\<lambda>location. case prog_match location of
                 None \<Rightarrow> (case get_pos_by_name ev (location_arg a) of
                            (la, lo, al) \<Rightarrow> PogoWorker la lo al)
               | Some (g1, g2) \<Rightarrow> PogoWorker (PyFloat g1) (PyFloat g2) (PyInt 0))
              (split_bar (location_arg a))
      \<and> lookups (added s (snd (parse_locations ns ev a s))) =
          map (\<lambda>location. location_arg a)
              (filter (\<lambda>location. prog_match location = None) (split_bar (location_arg a))))"
proof (cases "''PogoWorker'' \<in> set ns")
  case True
  then show ?thesis
    by (simp add: parse_locations_def locate_all_bound added_def lookups_located)
next
  case False
  then show ?thesis
    by (simp add: parse_locations_unbound added_def)
qed

theorem lookup_uses_whole_argument_witness:
  "''PogoWorker'' \<in> set (''PogoWorker'' # script_names)
   \<and> split_bar (location_arg sample_args) = [''Berlin'', ''48.85,2.35'', ''Rome'']
   \<and> locations (snd (parse_locations (''PogoWorker'' # script_names) sample_env sample_args init_state)) =
       [PogoWorker (PyFloat ''0.0'') (PyFloat ''0.0'') (PyFloat ''0.0''),
        PogoWorker (PyFloat ''48.85'') (PyFloat ''2.35'') (PyInt 0),
        PogoWorker (PyFloat ''0.0'') (PyFloat ''0.0'') (PyFloat ''0.0'')]
   \<and> lookups (added init_state
        (snd (parse_locations (''PogoWorker'' # script_names) sample_env sample_args init_state))) =
       [''Berlin|48.85,2.35|Rome'', ''Berlin|48.85,2.35|Rome'']"
  using lookup_uses_whole_argument
          [of init_state "''PogoWorker'' # script_names" sample_env sample_args]
  by (simp add: prog_match_def decimals_def skip_if_def is_digit_def is_space_def)

section \<open>Properties of the pause signal and the search thread\<close>

lemma start_search_only_server:
  assumes "only_server a"
  shows "start_search a p s =
     (None, s\<lparr>trace := trace s @ [NewEvent (length (events s)), EventClear (length (events s))],
              events := events s @ [False], pause_bit := Some (length (events s))\<rparr>)"
  using assms by (simp add: start_search_def Let_def emit_def ok_def event_clear_def)

lemma start_search_real:
  assumes "\<not> only_server a" "\<not> mock a"
  shows "start_search a p s =
     (None, s\<lparr>trace := trace s @
                [NewEvent (length (events s)), EventClear (length (events s)),
                 Log Debug ''Starting a real search thread'',
                 ThreadStart \<lparr>thread_target = Search_overseer_thread,
                    thread_args = [ArgArgs, ArgLocations (locations s),
                                   ArgEvent (length (events s)), ArgString p],
                    daemon = True, thread_name = ''search_thread''\<rparr>],
              events := events s @ [False], pause_bit := Some (length (events s)),
              search_thread := Some \<lparr>thread_target = Search_overseer_thread,
                    thread_args = [ArgArgs, ArgLocations (locations s),
                                   ArgEvent (length (events s)), ArgString p],
                    daemon = True, thread_name = ''search_thread''\<rparr>\<rparr>)"
  using assms
  by (simp add: start_search_def Let_def emit_def ok_def event_clear_def start_thread_def Thread_def)

lemma start_search_mock:
  assumes "\<not> only_server a" "mock a" "locations s = l # ls"
  shows "start_search a p s =
     (None, s\<lparr>trace := trace s @
                [NewEvent (length (events s)), EventClear (length (events s)),
                 Log Debug ''Starting a fake search thread'',
                 InsertMockData l,
                 ThreadStart \<lparr>thread_target = Fake_search_loop, thread_args = [],
                    daemon = True, thread_name = ''search_thread''\<rparr>],
              events := events s @ [False], pause_bit := Some (length (events s)),
              search_thread := Some \<lparr>thread_target = Fake_search_loop, thread_args = [],
                    daemon = True, thread_name = ''search_thread''\<rparr>\<rparr>)"
  using assms
  by (simp add: start_search_def Let_def emit_def ok_def event_clear_def start_thread_def Thread_def)

lemma finish_bound:
  assumes "pause_bit s = Some r"
  shows "finish ev a s =
     (None, s\<lparr>trace := trace s @ (if cors a then [EnableCORS] else []) @
                [InitCacheBusting, SetSearchControl r,
                 ConfigSet ''ROOT_PATH'' (CStr (root_path ev)),
                 ConfigSet ''GMAPS_KEY'' (CStr (gmaps_key a))]\<rparr>)"
  using assms by (simp add: finish_def Let_def emit_def ok_def)

lemma launch_only_server:
  assumes "only_server a"
  shows "launch ev a s =
     (None, s\<lparr>trace := trace s @ [NewEvent (length (events s)), EventClear (length (events s))]
                @ (if cors a then [EnableCORS] else []) @
                [InitCacheBusting, SetSearchControl (length (events s)),
                 ConfigSet ''ROOT_PATH'' (CStr (root_path ev)),
                 ConfigSet ''GMAPS_KEY'' (CStr (gmaps_key a))],
              events := events s @ [False], pause_bit := Some (length (events s))\<rparr>)"
  using assms
  by (simp add: launch_def and_then_def start_search_only_server finish_bound)

lemma launch_real:
  assumes "\<not> only_server a" "\<not> mock a"
  shows "launch ev a s =
     (None, s\<lparr>trace := trace s @
                [NewEvent (length (events s)), EventClear (length (events s)),
                 Log Debug ''Starting a real search thread'',
                 ThreadStart \<lparr>thread_target = Search_overseer_thread,
                    thread_args = [ArgArgs, ArgLocations (locations s),
                                   ArgEvent (length (events s)),
                                   ArgString (get_encryption_lib_path ev)],
                    daemon = True, thread_name = ''search_thread''\<rparr>]
                @ (if cors a then [EnableCORS] else []) @
                [InitCacheBusting, SetSearchControl (length (events s)),
                 ConfigSet ''ROOT_PATH'' (CStr (root_path ev)),
                 ConfigSet ''GMAPS_KEY'' (CStr (gmaps_key a))],
              events := events s @ [False], pause_bit := Some (length (events s)),
              search_thread := Some \<lparr>thread_target = Search_overseer_thread,
                    thread_args = [ArgArgs, ArgLocations (locations s),
                                   ArgEvent (length (events s)),
                                   ArgString (get_encryption_lib_path ev)],
                    daemon = True, thread_name = ''search_thread''\<rparr>\<rparr>)"
  using assms
  by (simp add: launch_def and_then_def start_search_real finish_bound)

lemma launch_mock:
  assumes "\<not> only_server a" "mock a" "locations s = l # ls"
  shows "launch ev a s =
     (None, s\<lparr>trace := trace s @
                [NewEvent (length (events s)), EventClear (length (events s)),
                 Log Debug ''Starting a fake search thread'',
                 InsertMockData l,
                 ThreadStart \<lparr>thread_target = Fake_search_loop, thread_args = [],
                    daemon = True, thread_name = ''search_thread''\<rparr>]
                @ (if cors a then [EnableCORS] else []) @
                [InitCacheBusting, SetSearchControl (length (events s)),
                 ConfigSet ''ROOT_PATH'' (CStr (root_path ev)),
                 ConfigSet ''GMAPS_KEY'' (CStr (gmaps_key a))],
              events := events s @ [False], pause_bit := Some (length (events s)),
              search_thread := Some \<lparr>thread_target = Fake_search_loop, thread_args = [],
                    daemon = True, thread_name = ''search_thread''\<rparr>\<rparr>)"
  using assms
  by (simp add: launch_def and_then_def start_search_mock finish_bound)

text \<open>
  C6. The claim: in mock mode the fake search loop is given the same pause signal (and
  shutdown signal) as the real overseer thread. In mock mode with one bound location the
  only thread started has the target \<open>fake_search_loop\<close> and an empty argument list,
  while the pause signal exists at address 0.
\<close>

theorem mock_thread_gets_no_signal:
  "started_threads (trace (snd (launch sample_env (sample_args\<lparr>mock := True\<rparr>)
       (init_state\<lparr>locations := [add_account ''a0'' berlin]\<rparr>)))) =
     [\<lparr>thread_target = Fake_search_loop, thread_args = [], daemon = True,
       thread_name = ''search_thread''\<rparr>]
   \<and> pause_bit (snd (launch sample_env (sample_args\<lparr>mock := True\<rparr>)
       (init_state\<lparr>locations := [add_account ''a0'' berlin]\<rparr>))) = Some 0"
  by (simp add: launch_mock [where l = "add_account ''a0'' berlin" and ls = "[]"] init_state_def)

text \<open>
  C6, amended. In mock mode (the search not switched off, a location bound) the one thread
  that is started runs \<open>fake_search_loop\<close> with no arguments at all: it is handed no
  signal. The pause signal is handed to the control surface only.
\<close>

theorem mock_thread_has_no_arguments:
  assumes "mock a" "\<not> only_server a" "locations s \<noteq> []"
  shows "fst (launch ev a s) = None
       \<and> started_threads (added s (snd (launch ev a s))) =
           [\<lparr>thread_target = Fake_search_loop, thread_args = [], daemon = True,
             thread_name = ''search_thread''\<rparr>]
       \<and> map (\<lambda>t. signals_of (thread_args t)) (started_threads (added s (snd (launch ev a s)))) = [[]]
       \<and> control_signals (added s (snd (launch ev a s))) = [length (events s)]"
proof -
  from assms(3) obtain l ls where "locations s = l # ls"
    by (cases "locations s") auto
  then show ?thesis
    using assms(1,2) by (simp add: launch_mock added_def readers_append)
qed

theorem mock_thread_has_no_arguments_witness:
  "fst (launch sample_env (sample_args\<lparr>mock := True\<rparr>)
         (init_state\<lparr>locations := [add_account ''a0'' berlin]\<rparr>)) = None
   \<and> map (\<lambda>t. signals_of (thread_args t))
        (started_threads (added (init_state\<lparr>locations := [add_account ''a0'' berlin]\<rparr>)
           (snd (launch sample_env (sample_args\<lparr>mock := True\<rparr>)
              (init_state\<lparr>locations := [add_account ''a0'' berlin]\<rparr>))))) = [[]]
   \<and> control_signals (added (init_state\<lparr>locations := [add_account ''a0'' berlin]\<rparr>)
           (snd (launch sample_env (sample_args\<lparr>mock := True\<rparr>)
              (init_state\<lparr>locations := [add_account ''a0'' berlin]\<rparr>)))) = [0]"
  using mock_thread_has_no_arguments
          [of "sample_args\<lparr>mock := True\<rparr>" "init_state\<lparr>locations := [add_account ''a0'' berlin]\<rparr>"
              sample_env]
  by (simp add: init_state_def)

text \<open>
  C7. In mock mode with at least one bound location, when the search is started at all
  (lines 146 to 157 are under \<open>if not args.only_server\<close>, and the claim speaks of the
  fake search thread starting), lines 140 to 168 make exactly one call of
  \<open>insert_mock_data\<close>, on the first location, before the one thread is started; that
  thread runs \<open>fake_search_loop\<close>, and the overseer thread, which does the live scans,
  is never started.
\<close>

theorem mock_inserts_once_before_fake_thread:
  assumes "mock a" "\<not> only_server a" "locations s = l # ls"
  shows "fst (launch ev a s) = None
       \<and> added s (snd (launch ev a s)) =
           [NewEvent (length (events s)), EventClear (length (events s)),
            Log Debug ''Starting a fake search thread'',
            InsertMockData l,
            ThreadStart \<lparr>thread_target = Fake_search_loop, thread_args = [], daemon = True,
              thread_name = ''search_thread''\<rparr>]
           @ (if cors a then [EnableCORS] else []) @
           [InitCacheBusting, SetSearchControl (length (events s)),
            ConfigSet ''ROOT_PATH'' (CStr (root_path ev)),
            ConfigSet ''GMAPS_KEY'' (CStr (gmaps_key a))]
       \<and> mock_inserts (added s (snd (launch ev a s))) = [l]
       \<and> map thread_target (started_threads (added s (snd (launch ev a s)))) = [Fake_search_loop]"
  using assms by (simp add: launch_mock added_def readers_append)

theorem mock_inserts_once_before_fake_thread_witness:
  "fst (launch sample_env (sample_args\<lparr>mock := True\<rparr>)
         (init_state\<lparr>locations := [add_account ''a0'' berlin]\<rparr>)) = None
   \<and> mock_inserts (added (init_state\<lparr>locations := [add_account ''a0'' berlin]\<rparr>)
        (snd (launch sample_env (sample_args\<lparr>mock := True\<rparr>)
              (init_state\<lparr>locations := [add_account ''a0'' berlin]\<rparr>)))) =
       [add_account ''a0'' berlin]
   \<and> map thread_target
        (started_threads (added (init_state\<lparr>locations := [add_account ''a0'' berlin]\<rparr>)
           (snd (launch sample_env (sample_args\<lparr>mock := True\<rparr>)
              (init_state\<lparr>locations := [add_account ''a0'' berlin]\<rparr>))))) = [Fake_search_loop]"
  using mock_inserts_once_before_fake_thread
          [of "sample_args\<lparr>mock := True\<rparr>" "init_state\<lparr>locations := [add_account ''a0'' berlin]\<rparr>"
              "add_account ''a0'' berlin" "[]" sample_env]
  by (simp add: init_state_def)

text \<open>
  C8. Lines 140 to 168, run with at least one location, create exactly one \<open>Event\<close>
  object and hand its address, not a copy, to \<open>set_search_control\<close>; every overseer
  thread that is started has this same address as its only signal, and in a real search
  run there is exactly one such thread. Since both hold one address, setting or clearing
  the flag through the control surface's reference is what a test through the thread's
  reference sees.
\<close>

theorem one_pause_signal_shared:
  assumes "locations s \<noteq> []"
  shows "fst (launch ev a s) = None
       \<and> created_events (added s (snd (launch ev a s))) = [length (events s)]
       \<and> control_signals (added s (snd (launch ev a s))) = [length (events s)]
       \<and> pause_bit (snd (launch ev a s)) = Some (length (events s))
       \<and> (\<forall>t \<in> set (started_threads (added s (snd (launch ev a s)))).
             thread_target t = Search_overseer_thread \<longrightarrow>
             signals_of (thread_args t) = [length (events s)])
       \<and> (\<not> only_server a \<and> \<not> mock a \<longrightarrow>
             map (\<lambda>t. (thread_target t, signals_of (thread_args t)))
               (started_threads (added s (snd (launch ev a s)))) =
             [(Search_overseer_thread, [length (events s)])])
       \<and> (\<forall>rt \<in> set (concat (map (\<lambda>t. signals_of (thread_args t))
                         (started_threads (added s (snd (launch ev a s)))))).
          \<forall>rc \<in> set (control_signals (added s (snd (launch ev a s)))).
          \<forall>st. rc < length st \<longrightarrow>
             event_is_set rt (event_set rc st) \<and> \<not> event_is_set rt (event_clear rc st))"
proof -
  from assms obtain l ls where l: "locations s = l # ls"
    by (cases "locations s") auto
  consider "only_server a" | "\<not> only_server a" "\<not> mock a" | "\<not> only_server a" "mock a"
    by blast
  then show ?thesis
  proof cases
    case 1
    then show ?thesis
      by (simp add: launch_only_server added_def readers_append)
  next
    case 2
    then show ?thesis
      by (simp add: launch_real added_def readers_append event_is_set_def event_set_def
            event_clear_def)
  next
    case 3
    then show ?thesis
      using l by (simp add: launch_mock added_def readers_append)
  qed
qed

theorem one_pause_signal_shared_witness:
  "locations (init_state\<lparr>locations := [add_account ''a0'' berlin]\<rparr>) \<noteq> []
   \<and> created_events (added (init_state\<lparr>locations := [add_account ''a0'' berlin]\<rparr>)
        (snd (launch sample_env sample_args (init_state\<lparr>locations := [add_account ''a0'' berlin]\<rparr>)))) = [0]
   \<and> control_signals (added (init_state\<lparr>locations := [add_account ''a0'' berlin]\<rparr>)
        (snd (launch sample_env sample_args (init_state\<lparr>locations := [add_account ''a0'' berlin]\<rparr>)))) = [0]
   \<and> map (\<lambda>t. (thread_target t, signals_of (thread_args t)))
        (started_threads (added (init_state\<lparr>locations := [add_account ''a0'' berlin]\<rparr>)
          (snd (launch sample_env sample_args (init_state\<lparr>locations := [add_account ''a0'' berlin]\<rparr>))))) =
       [(Search_overseer_thread, [0])]
   \<and> event_is_set 0 (event_set 0 [False]) \<and> \<not> event_is_set 0 (event_clear 0 [True])"
  using one_pause_signal_shared
          [of "init_state\<lparr>locations := [add_account ''a0'' berlin]\<rparr>" sample_env sample_args]
  by (simp add: init_state_def event_is_set_def event_set_def event_clear_def)

text \<open>
  C10. In every run of lines 140 to 157 the first two events are the creation of the
  pause signal and its \<open>clear()\<close>, and no other signal is created. The search thread is
  created and started after them: in a real search run the events that follow are the
  debug line and the start of the overseer thread, which holds the address of that same
  signal; in a mock run with a location they are the debug line, the mock insert and the
  start of the fake thread; with \<open>only_server\<close> nothing follows and no thread exists.
  The store is the old one with the new signal at its end, its flag not set, so the flag
  is clear when the thread starts, and only a later \<open>set\<close> can pause the search.
\<close>

theorem pause_signal_cleared_before_search_starts:
  "\<exists>rest. added s (snd (start_search a p s)) =
            NewEvent (length (events s)) # EventClear (length (events s)) # rest
        \<and> created_events rest = []
        \<and> pause_bit (snd (start_search a p s)) = Some (length (events s))
        \<and> events (snd (start_search a p s)) = events s @ [False]
        \<and> length (events s) < length (events (snd (start_search a p s)))
        \<and> \<not> event_is_set (length (events s)) (events (snd (start_search a p s)))
        \<and> started_threads (added s (snd (start_search a p s))) = started_threads rest
        \<and> (only_server a \<longrightarrow>
              rest = [] \<and> search_thread (snd (start_search a p s)) = search_thread s)
        \<and> (\<not> only_server a \<and> \<not> mock a \<longrightarrow>
              rest = [Log Debug ''Starting a real search thread'',
                      ThreadStart \<lparr>thread_target = Search_overseer_thread,
                        thread_args = [ArgArgs, ArgLocations (locations s),
                                       ArgEvent (length (events s)), ArgString p],
                        daemon = True, thread_name = ''search_thread''\<rparr>]
            \<and> map (\<lambda>t. signals_of (thread_args t)) (started_threads rest) =
                [[length (events s)]]
            \<and> search_thread (snd (start_search a p s)) =
                Some \<lparr>thread_target = Search_overseer_thread,
                      thread_args = [ArgArgs, ArgLocations (locations s),
                                     ArgEvent (length (events s)), ArgString p],
                      daemon = True, thread_name = ''search_thread''\<rparr>)
        \<and> (\<not> only_server a \<and> mock a \<and> locations s \<noteq> [] \<longrightarrow>
              rest = [Log Debug ''Starting a fake search thread'',
                      InsertMockData (hd (locations s)),
                      ThreadStart \<lparr>thread_target = Fake_search_loop, thread_args = [],
                        daemon = True, thread_name = ''search_thread''\<rparr>]
            \<and> search_thread (snd (start_search a p s)) =
                Some \<lparr>thread_target = Fake_search_loop, thread_args = [],
                      daemon = True, thread_name = ''search_thread''\<rparr>)
        \<and> (\<not> only_server a \<and> mock a \<and> locations s = [] \<longrightarrow>
              fst (start_search a p s) = Some IndexError \<and> started_threads rest = [])"
proof -
  consider "only_server a" | "\<not> only_server a" "\<not> mock a"
    | "\<not> only_server a" "mock a" "locations s = []"
    | l ls where "\<not> only_server a" "mock a" "locations s = l # ls"
    by (cases "locations s") auto
  then show ?thesis
  proof cases
    case 1
    then show ?thesis
      by (simp add: start_search_only_server added_def event_is_set_def)
  next
    case 2
    then show ?thesis
      by (simp add: start_search_real added_def event_is_set_def)
  next
    case 3
    then show ?thesis
      by (simp add: start_search_def Let_def emit_def raise_def added_def event_is_set_def
            event_clear_def)
  next
    case 4
    then show ?thesis
      by (simp add: start_search_mock added_def event_is_set_def)
  qed
qed

theorem pause_signal_cleared_before_search_starts_witness:
  "added (init_state\<lparr>locations := [add_account ''a0'' berlin]\<rparr>)
     (snd (start_search sample_args ''libencrypt.so''
            (init_state\<lparr>locations := [add_account ''a0'' berlin]\<rparr>))) =
     [NewEvent 0, EventClear 0, Log Debug ''Starting a real search thread'',
      ThreadStart \<lparr>thread_target = Search_overseer_thread,
        thread_args = [ArgArgs, ArgLocations [add_account ''a0'' berlin], ArgEvent 0,
                       ArgString ''libencrypt.so''],
        daemon = True, thread_name = ''search_thread''\<rparr>]
   \<and> events (snd (start_search sample_args ''libencrypt.so''
                (init_state\<lparr>locations := [add_account ''a0'' berlin]\<rparr>))) = [False]
   \<and> \<not> event_is_set 0 (events (snd (start_search sample_args ''libencrypt.so''
                (init_state\<lparr>locations := [add_account ''a0'' berlin]\<rparr>))))"
  using pause_signal_cleared_before_search_starts
          [of "init_state\<lparr>locations := [add_account ''a0'' berlin]\<rparr>" sample_args
              "''libencrypt.so''"]
  by (auto simp add: init_state_def)

end
